theory Spec2Isabelle
  imports Main "HOL-Library.Word"
begin

section \<open>The sketch's data\<close>

text \<open>
  The firmware sketch \<^verbatim>\<open>SmartClamp_ESP32_Firmware.ino\<close> keeps four global variables
  (lines 22 to 25): two \<^verbatim>\<open>String\<close>s that identify the clamp, an \<^verbatim>\<open>int\<close> battery level
  and a \<^verbatim>\<open>String\<close> status. On the ESP32 an \<^verbatim>\<open>int\<close> has 32 bits, so the battery level is
  a 32-bit word that is compared and printed as a signed number (\<open>sint\<close>, \<open><s\<close>).
\<close>

record device_status =
  clampId :: string
  clampCity :: string
  batteryLevel :: "32 word"
  clampStatus :: string

definition initial_status :: device_status where
  "initial_status =
     \<lparr>clampId = ''PHYSICAL_CLAMP_001'', clampCity = ''Pune'',
      batteryLevel = 95, clampStatus = ''available''\<rparr>"

text \<open>
  The configuration constants of lines 10 to 18. The network password is passed to
  \<^verbatim>\<open>WiFi.begin\<close> and nowhere else; the model records that call with the network name
  only.
\<close>

definition ssid :: string where
  "ssid = ''Airtel_abhi_7223''"

definition flaskAppHost :: string where
  "flaskAppHost = ''192.168.1.8''"

definition flaskAppPort :: "32 word" where
  "flaskAppPort = 5000"

definition statusUpdateEndpoint :: string where
  "statusUpdateEndpoint = ''/api/clamp_status_update''"

text \<open>
  \<^verbatim>\<open>WiFi.status()\<close> returns a value of the enumeration \<^verbatim>\<open>wl_status_t\<close> of the WiFi
  library; the sketch only compares it with \<^verbatim>\<open>WL_CONNECTED\<close>.
\<close>

datatype wl_status_t =
  WL_NO_SHIELD | WL_IDLE_STATUS | WL_NO_SSID_AVAIL | WL_SCAN_COMPLETED | WL_CONNECTED
  | WL_CONNECT_FAILED | WL_CONNECTION_LOST | WL_DISCONNECTED

text \<open>
  Everything the sketch does to the outside world is a call into a library: the serial
  port, the delay timer, the WiFi driver and the HTTP client. The model records each call,
  in program order, as an event of a trace.
\<close>

datatype event =
  SerialBegin nat
  | SerialPrint string
  | Delay nat
  | WiFiBegin string
  | HttpBegin string
  | HttpAddHeader string string
  | HttpPOST string
  | HttpGetString
  | HttpEnd

record machine =
  dev :: device_status
  trace :: "event list"

definition boot :: machine where
  "boot = \<lparr>dev = initial_status, trace = []\<rparr>"

definition emit :: "machine \<Rightarrow> event list \<Rightarrow> machine" where
  "emit m es = m\<lparr>trace := trace m @ es\<rparr>"

text \<open>\<^verbatim>\<open>Serial.println\<close> prints its argument followed by carriage return and line feed.\<close>

definition println :: "string \<Rightarrow> event" where
  "println s = SerialPrint (s @ [CHR 0x0D, CHR 0x0A])"

section \<open>Decimal rendering of integers\<close>

text \<open>
  \<^verbatim>\<open>String(flaskAppPort)\<close>, the \<^verbatim>\<open>%d\<close> of \<^verbatim>\<open>Serial.printf\<close> and the JSON writer all
  render an \<^verbatim>\<open>int\<close> in decimal, with a leading minus sign for a negative value.
\<close>

definition digit_char :: "nat \<Rightarrow> char" where
  "digit_char d = char_of (48 + d)"

fun digits :: "nat \<Rightarrow> string" where
  "digits n = (if n < 10 then [digit_char n] else digits (n div 10) @ [digit_char (n mod 10)])"

declare digits.simps [simp del]

definition dec :: "int \<Rightarrow> string" where
  "dec i = (if i < 0 then CHR ''-'' # digits (nat (- i)) else digits (nat i))"

section \<open>The JSON document and its text\<close>

text \<open>
  Lines 54 to 58 fill a JSON document with four members. The values the sketch stores are
  strings and one integer. A document is the list of its members in insertion order;
  \<^verbatim>\<open>doc[key] = value\<close> replaces the value of a member that exists and appends a new
  member otherwise. The document is declared with a capacity of 200 bytes
  (\<^verbatim>\<open>StaticJsonDocument<200>\<close>); how many bytes a member takes is a matter of the
  library's memory layout and is not part of this model, which stores every member.
\<close>

datatype json = JString string | JInt int

type_synonym json_doc = "(string \<times> json) list"

fun doc_set :: "string \<Rightarrow> json \<Rightarrow> json_doc \<Rightarrow> json_doc" where
  "doc_set k v [] = [(k, v)]"
| "doc_set k v ((k', v') # ms) =
     (if k' = k then (k, v) # ms else (k', v') # doc_set k v ms)"

definition build_doc :: "device_status \<Rightarrow> json_doc" where
  "build_doc d =
     doc_set ''battery_level'' (JInt (sint (batteryLevel d)))
       (doc_set ''city'' (JString (clampCity d))
         (doc_set ''status'' (JString (clampStatus d))
           (doc_set ''clamp_id'' (JString (clampId d)) [])))"

definition dquote :: char where
  "dquote = CHR 0x22"

definition bslash :: char where
  "bslash = CHR 0x5C"

text \<open>
  Modelled from the spec: \<^verbatim>\<open>serializeJson\<close> belongs to the ArduinoJson library, which is
  not among the sources. The spec asks for a JSON object with the fixed key names, the
  values copied verbatim, strings under standard JSON string escaping and the battery as
  an integer. The writer below produces the compact text. In a string the quotation mark
  and the backslash are escaped, a control character (below \<open>0x20\<close>) is written with its
  short escape when it has one and as \<^verbatim>\<open>\u00XX\<close> otherwise, and every other character
  is copied. A text is a list of characters, those of the type \<open>char\<close>; its encoding in
  bytes is not part of the model.
\<close>

definition is_control :: "char \<Rightarrow> bool" where
  "is_control c = ((of_char c :: nat) < 32)"

definition hex_char :: "nat \<Rightarrow> char" where
  "hex_char d = (if d < 10 then char_of (48 + d) else char_of (87 + d))"

definition escape_char :: "char \<Rightarrow> string" where
  "escape_char c =
     (if c = dquote then [bslash, dquote]
      else if c = bslash then [bslash, bslash]
      else if c = CHR 0x08 then [bslash, CHR ''b'']
      else if c = CHR 0x0C then [bslash, CHR ''f'']
      else if c = CHR 0x0A then [bslash, CHR ''n'']
      else if c = CHR 0x0D then [bslash, CHR ''r'']
      else if c = CHR 0x09 then [bslash, CHR ''t'']
      else if is_control c then
        [bslash, CHR ''u'', CHR ''0'', CHR ''0'',
         hex_char (of_char c div 16), hex_char (of_char c mod 16)]
      else [c])"

definition quote_string :: "string \<Rightarrow> string" where
  "quote_string s = dquote # concat (map escape_char s) @ [dquote]"

fun serialize_value :: "json \<Rightarrow> string" where
  "serialize_value (JString s) = quote_string s"
| "serialize_value (JInt i) = dec i"

definition serialize_member :: "string \<times> json \<Rightarrow> string" where
  "serialize_member kv = quote_string (fst kv) @ '':'' @ serialize_value (snd kv)"

fun serialize_members :: "json_doc \<Rightarrow> string" where
  "serialize_members [] = []"
| "serialize_members [kv] = serialize_member kv"
| "serialize_members (kv # ms) = serialize_member kv @ '','' @ serialize_members ms"

definition serializeJson :: "json_doc \<Rightarrow> string" where
  "serializeJson doc = ''{'' @ serialize_members doc @ ''}''"

text \<open>
  Modelled from the spec: the reader of the payload is the receiving backend, which is not
  among the sources either. The spec asks that the payload, parsed as JSON, gives back the
  four field values. The parser below reads a JSON object in compact form (no white space)
  whose values are strings or integers and returns its members in the order of the text,
  or \<open>None\<close> for any other text. It follows the grammar of JSON: inside a string a
  control character must be escaped, a backslash must begin one of the escapes of JSON
  (a \<^verbatim>\<open>\uXXXX\<close> escape is read when it names a character of the type \<open>char\<close>), and an
  integer has no leading zero.
\<close>

definition unescape_char :: "char \<Rightarrow> char option" where
  "unescape_char e =
     (if e = dquote then Some dquote
      else if e = bslash then Some bslash
      else if e = CHR ''/'' then Some (CHR ''/'')
      else if e = CHR ''b'' then Some (CHR 0x08)
      else if e = CHR ''f'' then Some (CHR 0x0C)
      else if e = CHR ''n'' then Some (CHR 0x0A)
      else if e = CHR ''r'' then Some (CHR 0x0D)
      else if e = CHR ''t'' then Some (CHR 0x09)
      else None)"

definition hex_val :: "char \<Rightarrow> nat option" where
  "hex_val c =
     (let n = (of_char c :: nat)
      in if 48 \<le> n \<and> n \<le> 57 then Some (n - 48)
         else if 97 \<le> n \<and> n \<le> 102 then Some (n - 87)
         else if 65 \<le> n \<and> n \<le> 70 then Some (n - 55)
         else None)"

definition unicode_escape :: "char \<Rightarrow> char \<Rightarrow> char \<Rightarrow> char \<Rightarrow> char option" where
  "unicode_escape h3 h2 h1 h0 =
     (case hex_val h3 of None \<Rightarrow> None | Some a \<Rightarrow>
      case hex_val h2 of None \<Rightarrow> None | Some b \<Rightarrow>
      case hex_val h1 of None \<Rightarrow> None | Some c \<Rightarrow>
      case hex_val h0 of None \<Rightarrow> None | Some d \<Rightarrow>
        (let cp = ((a * 16 + b) * 16 + c) * 16 + d
         in if cp < 256 then Some (char_of cp) else None))"

text \<open>The characters of a string after its opening quotation mark, up to the closing one.\<close>

fun parse_chars :: "string \<Rightarrow> (string \<times> string) option" where
  "parse_chars [] = None"
| "parse_chars (c # cs) =
     (if c = dquote then Some ([], cs)
      else if c = bslash then
        (case cs of
           [] \<Rightarrow> None
         | e # cs' \<Rightarrow>
             if e = CHR ''u'' then
               (case cs' of
                  h3 # h2 # h1 # h0 # cs'' \<Rightarrow>
                    (case unicode_escape h3 h2 h1 h0 of
                       None \<Rightarrow> None
                     | Some x \<Rightarrow>
                         (case parse_chars cs'' of
                            None \<Rightarrow> None
                          | Some (s, rest) \<Rightarrow> Some (x # s, rest)))
                | _ \<Rightarrow> None)
             else
               (case unescape_char e of
                  None \<Rightarrow> None
                | Some x \<Rightarrow>
                    (case parse_chars cs' of
                       None \<Rightarrow> None
                     | Some (s, rest) \<Rightarrow> Some (x # s, rest))))
      else if is_control c then None
      else
        (case parse_chars cs of
           None \<Rightarrow> None
         | Some (s, rest) \<Rightarrow> Some (c # s, rest)))"

definition parse_string :: "string \<Rightarrow> (string \<times> string) option" where
  "parse_string s =
     (case s of [] \<Rightarrow> None | c # cs \<Rightarrow> if c = dquote then parse_chars cs else None)"

definition is_digit :: "char \<Rightarrow> bool" where
  "is_digit c = (48 \<le> (of_char c :: nat) \<and> (of_char c :: nat) \<le> 57)"

definition digit_val :: "char \<Rightarrow> nat" where
  "digit_val c = of_char c - 48"

definition digits_val :: "string \<Rightarrow> nat" where
  "digits_val ds = foldl (\<lambda>a c. 10 * a + digit_val c) 0 ds"

definition leading_zero :: "string \<Rightarrow> bool" where
  "leading_zero ds = (case ds of c # _ # _ \<Rightarrow> c = CHR ''0'' | _ \<Rightarrow> False)"

definition parse_nat :: "string \<Rightarrow> (nat \<times> string) option" where
  "parse_nat s =
     (let ds = takeWhile is_digit s
      in if ds = [] \<or> leading_zero ds then None
         else Some (digits_val ds, dropWhile is_digit s))"

definition parse_int :: "string \<Rightarrow> (int \<times> string) option" where
  "parse_int s =
     (case s of
        [] \<Rightarrow> None
      | c # cs \<Rightarrow>
          if c = CHR ''-'' then
            (case parse_nat cs of None \<Rightarrow> None | Some (n, rest) \<Rightarrow> Some (- int n, rest))
          else
            (case parse_nat s of None \<Rightarrow> None | Some (n, rest) \<Rightarrow> Some (int n, rest)))"

definition parse_value :: "string \<Rightarrow> (json \<times> string) option" where
  "parse_value s =
     (case s of
        [] \<Rightarrow> None
      | c # cs \<Rightarrow>
          if c = dquote then
            (case parse_chars cs of None \<Rightarrow> None | Some (x, rest) \<Rightarrow> Some (JString x, rest))
          else
            (case parse_int s of None \<Rightarrow> None | Some (i, rest) \<Rightarrow> Some (JInt i, rest)))"

definition parse_member :: "string \<Rightarrow> ((string \<times> json) \<times> string) option" where
  "parse_member s =
     (case parse_string s of
        None \<Rightarrow> None
      | Some (k, r) \<Rightarrow>
          (case r of
             [] \<Rightarrow> None
           | c # r' \<Rightarrow>
               if c = CHR '':'' then
                 (case parse_value r' of None \<Rightarrow> None | Some (v, rest) \<Rightarrow> Some ((k, v), rest))
               else None))"

lemma parse_chars_shorter: "parse_chars s = Some (x, r) \<Longrightarrow> length r < length s"
proof (induction s arbitrary: x r rule: parse_chars.induct)
  case 1
  then show ?case by simp
next
  case (2 c cs)
  then show ?case
    by (fastforce split: if_splits list.splits option.splits)
qed

lemma parse_nat_shorter: "parse_nat s = Some (n, r) \<Longrightarrow> length r \<le> length s"
  by (auto simp: parse_nat_def Let_def length_dropWhile_le split: if_splits)

lemma parse_int_shorter: "parse_int s = Some (i, r) \<Longrightarrow> length r \<le> length s"
  by (auto simp: parse_int_def split: list.splits if_splits option.splits
      dest!: parse_nat_shorter)

lemma parse_value_shorter: "parse_value s = Some (v, r) \<Longrightarrow> length r \<le> length s"
  by (auto simp: parse_value_def split: list.splits if_splits option.splits
      dest!: parse_int_shorter parse_chars_shorter)

lemma parse_member_shorter: "parse_member s = Some (kv, r) \<Longrightarrow> length r < length s"
  by (auto simp: parse_member_def parse_string_def
      split: list.splits if_splits option.splits
      dest!: parse_value_shorter parse_chars_shorter)

text \<open>The members of an object after its opening brace, up to the closing one.\<close>

function parse_members :: "string \<Rightarrow> (json_doc \<times> string) option" where
  "parse_members s =
     (case parse_member s of
        None \<Rightarrow> None
      | Some (kv, r) \<Rightarrow>
          (case r of
             [] \<Rightarrow> None
           | c # r' \<Rightarrow>
               if c = CHR '','' then
                 (case parse_members r' of
                    None \<Rightarrow> None
                  | Some (ms, rest) \<Rightarrow> Some (kv # ms, rest))
               else if c = CHR ''}'' then Some ([kv], r')
               else None))"
  by pat_completeness auto
termination
proof (relation "measure length")
  show "wf (measure length)" by simp
next
  fix s x2 kv r c r'
  assume "parse_member s = Some x2" and "(kv, r) = x2" and "r = c # r'"
  then have "length (c # r') < length s"
    using parse_member_shorter [of s kv r] by simp
  then show "(r', s) \<in> measure length" by simp
qed

declare parse_members.simps [simp del]

definition parse_object :: "string \<Rightarrow> json_doc option" where
  "parse_object s =
     (case s of
        [] \<Rightarrow> None
      | c # r \<Rightarrow>
          if c \<noteq> CHR ''{'' then None
          else
            (case r of
               [] \<Rightarrow> None
             | c' # r' \<Rightarrow>
                 if c' = CHR ''}'' then (if r' = [] then Some [] else None)
                 else
                   (case parse_members r of
                      None \<Rightarrow> None
                    | Some (ms, rest) \<Rightarrow> if rest = [] then Some ms else None)))"

section \<open>The operations of the sketch\<close>

text \<open>
  The first statement of \<^verbatim>\<open>loop\<close> (lines 89 to 94), which the spec calls the tick: a
  positive battery level is decremented; otherwise the level is set to zero and the status
  to \<^verbatim>\<open>"low_battery"\<close>.
\<close>

definition tick :: "device_status \<Rightarrow> device_status" where
  "tick d =
     (if 0 <s batteryLevel d then d\<lparr>batteryLevel := batteryLevel d - 1\<rparr>
      else d\<lparr>batteryLevel := 0, clampStatus := ''low_battery''\<rparr>)"

text \<open>
  What the network answers in one call of \<^verbatim>\<open>sendStatusUpdate\<close>: the link state that
  \<^verbatim>\<open>WiFi.status()\<close> reports, the \<^verbatim>\<open>int\<close> that \<^verbatim>\<open>http.POST\<close> returns (an HTTP status
  code, or a negative error code of the client), the response body that
  \<^verbatim>\<open>http.getString()\<close> returns and the text of \<^verbatim>\<open>http.errorToString\<close>.
\<close>

record net_env =
  wifi_status :: wl_status_t
  post_result :: "32 word"
  response_body :: string
  error_string :: "32 word \<Rightarrow> string"

definition serverPath :: string where
  "serverPath =
     ''http://'' @ flaskAppHost @ '':'' @ dec (sint flaskAppPort) @ statusUpdateEndpoint"

text \<open>The payload of one report (lines 54 to 61): the document, written as text.\<close>

definition requestBody :: "device_status \<Rightarrow> string" where
  "requestBody d = serializeJson (build_doc d)"

definition sendStatusUpdate :: "net_env \<Rightarrow> machine \<Rightarrow> machine" where
  "sendStatusUpdate env m =
     (if wifi_status env = WL_CONNECTED then
        (let httpResponseCode = post_result env;
             m1 = emit m
               [SerialPrint ''Sending status to: '', println serverPath,
                HttpBegin serverPath,
                HttpAddHeader ''Content-Type'' ''application/json'',
                SerialPrint ''Request Body: '', println (requestBody (dev m)),
                HttpPOST (requestBody (dev m))]
         in if 0 <s httpResponseCode then
              emit m1
                [SerialPrint (''HTTP Response code: '' @ dec (sint httpResponseCode) @ [CHR 0x0A]),
                 HttpGetString, println (response_body env), HttpEnd]
            else
              emit m1
                [SerialPrint (''HTTP Error: '' @ error_string env httpResponseCode @ [CHR 0x0A]),
                 HttpEnd])
      else emit m [println ''WiFi not connected. Cannot send status update.''])"

text \<open>One iteration of \<^verbatim>\<open>loop\<close> (lines 87 to 99): tick, send, wait five seconds.\<close>

definition loop :: "net_env \<Rightarrow> machine \<Rightarrow> machine" where
  "loop env m = emit (sendStatusUpdate env (m\<lparr>dev := tick (dev m)\<rparr>)) [Delay 5000]"

text \<open>
  The Arduino core calls \<^verbatim>\<open>loop\<close> again and again; \<open>run envs m\<close> is the machine after
  one iteration for each element of \<open>envs\<close>, the network's answers cycle by cycle.
\<close>

fun run :: "net_env list \<Rightarrow> machine \<Rightarrow> machine" where
  "run [] m = m"
| "run (env # envs) m = run envs (loop env m)"

text \<open>
  \<^verbatim>\<open>connectToWiFi\<close> (lines 28 to 39). The link is the sequence of states that successive
  calls of \<^verbatim>\<open>WiFi.status()\<close> report. The polling loop has no bound, so it is a partial
  function: \<open>None\<close> is the call that never returns.
\<close>

partial_function (option) wait_connected ::
    "(nat \<Rightarrow> wl_status_t) \<Rightarrow> nat \<Rightarrow> machine \<Rightarrow> machine option" where
  "wait_connected link k m =
     (if link k \<noteq> WL_CONNECTED
      then wait_connected link (Suc k) (emit m [Delay 1000, SerialPrint ''.''])
      else Some m)"

definition connectToWiFi :: "(nat \<Rightarrow> wl_status_t) \<Rightarrow> string \<Rightarrow> machine \<Rightarrow> machine option" where
  "connectToWiFi link localIP m =
     (case wait_connected link 0
             (emit m [SerialPrint ''Connecting to WiFi: '', println ssid, WiFiBegin ssid]) of
        None \<Rightarrow> None
      | Some m1 \<Rightarrow>
          Some (emit m1
            [println (CHR 0x0A # ''WiFi Connected!''), SerialPrint ''ESP32 IP Address: '',
             println localIP]))"

text \<open>
  The function \<^verbatim>\<open>setup\<close> of the sketch (lines 81 to 85), under the name
  \<open>sketch_setup\<close>.
\<close>

definition sketch_setup :: "(nat \<Rightarrow> wl_status_t) \<Rightarrow> string \<Rightarrow> machine \<Rightarrow> machine option" where
  "sketch_setup link localIP m =
     (case connectToWiFi link localIP (emit m [SerialBegin 115200]) of
        None \<Rightarrow> None
      | Some m1 \<Rightarrow> Some (emit m1 [Delay 2000]))"

section \<open>Observations on traces and example inputs\<close>

text \<open>The calls into the HTTP client, and among the events those that only serve the
  diagnostic output: the serial prints and the read of the response body that is printed.\<close>

fun is_http :: "event \<Rightarrow> bool" where
  "is_http (HttpBegin _) = True"
| "is_http (HttpAddHeader _ _) = True"
| "is_http (HttpPOST _) = True"
| "is_http HttpGetString = True"
| "is_http HttpEnd = True"
| "is_http _ = False"

fun is_log :: "event \<Rightarrow> bool" where
  "is_log (SerialPrint _) = True"
| "is_log HttpGetString = True"
| "is_log _ = False"

definition not_log :: "event \<Rightarrow> bool" where
  "not_log e = (\<not> is_log e)"

text \<open>A number in a JSON text ends at the end of the text or before a character that is
  not a digit.\<close>

definition stops_number :: "string \<Rightarrow> bool" where
  "stops_number rest = (case rest of [] \<Rightarrow> True | c # _ \<Rightarrow> \<not> is_digit c)"

text \<open>What the polling loop of \<^verbatim>\<open>connectToWiFi\<close> does in \<open>n\<close> unsuccessful polls: wait a
  second and print a dot, \<open>n\<close> times.\<close>

definition dots :: "nat \<Rightarrow> event list" where
  "dots n = concat (replicate n [Delay 1000, SerialPrint ''.''])"

text \<open>The record of the spec's scenario.\<close>

definition scenario_status :: device_status where
  "scenario_status =
     \<lparr>clampId = ''C1'', clampCity = ''X'', batteryLevel = 2, clampStatus = ''available''\<rparr>"

text \<open>A record whose identifier holds characters that a JSON string must escape, and
  whose battery level is negative.\<close>

definition awkward_status :: device_status where
  "awkward_status =
     \<lparr>clampId = [CHR ''a'', CHR 0x22, CHR 0x5C, CHR 0x01, CHR 0x0A], clampCity = ''X'',
      batteryLevel = - 7, clampStatus = ''available''\<rparr>"

text \<open>A link that reports the connected state from the \<open>n\<close>-th poll on, a link that never
  does, and the answers of a network that is down, that accepts the report and that fails
  with HTTP status 500.\<close>

definition link_up_after :: "nat \<Rightarrow> nat \<Rightarrow> wl_status_t" where
  "link_up_after n k = (if k < n then WL_DISCONNECTED else WL_CONNECTED)"

definition link_never_up :: "nat \<Rightarrow> wl_status_t" where
  "link_never_up k = WL_NO_SSID_AVAIL"

definition env_offline :: net_env where
  "env_offline =
     \<lparr>wifi_status = WL_CONNECTION_LOST, post_result = 0, response_body = [],
      error_string = (\<lambda>c. [])\<rparr>"

definition env_ok :: net_env where
  "env_ok =
     \<lparr>wifi_status = WL_CONNECTED, post_result = 200, response_body = ''OK'',
      error_string = (\<lambda>c. [])\<rparr>"

definition env_500 :: net_env where
  "env_500 =
     \<lparr>wifi_status = WL_CONNECTED, post_result = 500, response_body = ''Internal Server Error'',
      error_string = (\<lambda>c. [])\<rparr>"

definition env_refused :: net_env where
  "env_refused =
     \<lparr>wifi_status = WL_CONNECTED, post_result = - 1, response_body = [],
      error_string = (\<lambda>c. ''connection refused'')\<rparr>"

section \<open>The battery drain\<close>

lemma sint_pred:
  fixes b :: "32 word"
  assumes "0 <s b"
  shows "sint (b - 1) = sint b - 1"
proof -
  have pos: "0 < sint b" using assms by (simp add: word_sless_alt)
  have up: "sint b < 2 ^ 31" using sint_lt [of b] by simp
  have "sint (b - 1) = signed_take_bit 31 (sint b - 1)"
    by (simp add: sint_word_ariths)
  also have "\<dots> = sint b - 1"
    using pos up by (simp add: signed_take_bit_int_eq_self)
  finally show ?thesis .
qed

lemma tick_battery:
  "sint (batteryLevel (tick d)) =
     (if 0 < sint (batteryLevel d) then sint (batteryLevel d) - 1 else 0)"
  by (simp add: tick_def word_sless_alt sint_pred)

lemma tick_status:
  "clampStatus (tick d) =
     (if 0 < sint (batteryLevel d) then clampStatus d else ''low_battery'')"
  by (simp add: tick_def word_sless_alt)

lemma tick_clampId: "clampId (tick d) = clampId d"
  by (simp add: tick_def)

lemma tick_clampCity: "clampCity (tick d) = clampCity d"
  by (simp add: tick_def)

lemma ticks_battery:
  assumes "0 \<le> sint (batteryLevel d)"
  shows "sint (batteryLevel ((tick ^^ n) d)) = max 0 (sint (batteryLevel d) - int n)"
  using assms by (induction n) (auto simp: tick_battery)

lemma ticks_status:
  assumes "0 \<le> sint (batteryLevel d)"
  shows "clampStatus ((tick ^^ n) d) =
     (if int n \<le> sint (batteryLevel d) then clampStatus d else ''low_battery'')"
  using assms by (induction n) (auto simp: tick_status ticks_battery)

lemma ticks_clampId: "clampId ((tick ^^ n) d) = clampId d"
  by (induction n) (simp_all add: tick_clampId)

lemma ticks_clampCity: "clampCity ((tick ^^ n) d) = clampCity d"
  by (induction n) (simp_all add: tick_clampCity)

lemma initial_battery: "sint (batteryLevel initial_status) = 95"
  by (simp add: initial_status_def)

lemma scenario_battery: "sint (batteryLevel scenario_status) = 2"
  by (simp add: scenario_status_def)

text \<open>
  Claim C1: in every state reachable from the initial record by ticks, the status is
  \<^verbatim>\<open>"low_battery"\<close> if and only if the battery level is zero. The sketch does not keep
  this: the tick that takes the level from 1 to 0 leaves the status alone, and only the
  next tick, which finds the level at zero, sets it. After 95 ticks from the initial
  record the level is zero and the status is not \<^verbatim>\<open>"low_battery"\<close>.
\<close>

theorem status_lags_behind_empty_battery:
  "batteryLevel ((tick ^^ 95) initial_status) = 0
   \<and> clampStatus ((tick ^^ 95) initial_status) \<noteq> ''low_battery''"
proof -
  have "sint (batteryLevel ((tick ^^ 95) initial_status)) = 0"
    by (simp add: ticks_battery initial_battery)
  then have "batteryLevel ((tick ^^ 95) initial_status) = 0"
    by (simp only: signed_eq_0_iff)
  moreover have "clampStatus ((tick ^^ 95) initial_status) = ''available''"
    by (simp add: ticks_status initial_battery) (simp add: initial_status_def)
  ultimately show ?thesis by simp
qed

text \<open>
  Claim C2: from every initial level \<open>B0\<close> in \<open>[0, 100]\<close> with status
  \<^verbatim>\<open>"available"\<close>, after exactly \<open>B0\<close> ticks the level is zero and the status is
  \<^verbatim>\<open>"low_battery"\<close>, and both stay so; in the scenario that starts at level 2 this is
  the state after 2 ticks, unchanged by a third. The sketch does not keep this, by the
  lag of claim C1: in the scenario the second tick takes the level from 1 to 0 and leaves
  the status \<^verbatim>\<open>"available"\<close>; it is the third tick that sets \<^verbatim>\<open>"low_battery"\<close>.
\<close>

theorem scenario_status_lags:
  "batteryLevel ((tick ^^ 2) scenario_status) = 0
   \<and> clampStatus ((tick ^^ 2) scenario_status) = ''available''
   \<and> clampStatus ((tick ^^ 2) scenario_status) \<noteq> ''low_battery''
   \<and> batteryLevel ((tick ^^ 3) scenario_status) = 0
   \<and> clampStatus ((tick ^^ 3) scenario_status) = ''low_battery''"
proof -
  have "sint (batteryLevel ((tick ^^ 2) scenario_status)) = 0"
    and "sint (batteryLevel ((tick ^^ 3) scenario_status)) = 0"
    by (simp_all add: ticks_battery scenario_battery)
  then have "batteryLevel ((tick ^^ 2) scenario_status) = 0"
    and "batteryLevel ((tick ^^ 3) scenario_status) = 0"
    by (simp_all only: signed_eq_0_iff)
  moreover have "clampStatus ((tick ^^ 2) scenario_status) = ''available''"
    by (simp add: ticks_status scenario_battery) (simp add: scenario_status_def)
  moreover have "clampStatus ((tick ^^ 3) scenario_status) = ''low_battery''"
    by (simp add: ticks_status scenario_battery)
  ultimately show ?thesis by simp
qed

text \<open>
  Claim C3: from an initial battery level in \<open>[0, 100]\<close>, after any number of ticks the
  level is not negative, does not exceed the initial level (nor 100), and one more tick
  does not raise it.
\<close>

theorem battery_bounds:
  assumes "0 \<le> sint (batteryLevel d)" and "sint (batteryLevel d) \<le> 100"
  shows "0 \<le> sint (batteryLevel ((tick ^^ n) d))
     \<and> sint (batteryLevel ((tick ^^ n) d)) \<le> sint (batteryLevel d)
     \<and> sint (batteryLevel ((tick ^^ n) d)) \<le> 100
     \<and> sint (batteryLevel (tick ((tick ^^ n) d))) \<le> sint (batteryLevel ((tick ^^ n) d))"
  using assms by (simp add: ticks_battery tick_battery)

theorem battery_bounds_witness:
  "0 \<le> sint (batteryLevel initial_status) \<and> sint (batteryLevel initial_status) \<le> 100
   \<and> 0 \<le> sint (batteryLevel ((tick ^^ 7) initial_status))
   \<and> sint (batteryLevel ((tick ^^ 7) initial_status)) \<le> sint (batteryLevel initial_status)
   \<and> sint (batteryLevel ((tick ^^ 7) initial_status)) \<le> 100
   \<and> sint (batteryLevel (tick ((tick ^^ 7) initial_status)))
       \<le> sint (batteryLevel ((tick ^^ 7) initial_status))"
proof -
  have a: "0 \<le> sint (batteryLevel initial_status)" by (simp add: initial_battery)
  have b: "sint (batteryLevel initial_status) \<le> 100" by (simp add: initial_battery)
  show ?thesis using a b battery_bounds [OF a b, of 7] by simp
qed

section \<open>The payload\<close>

lemma hex_val_hex_char: "d < 16 \<Longrightarrow> hex_val (hex_char d) = Some d"
  by (simp add: hex_val_def hex_char_def Let_def)

lemma unicode_escape_control:
  assumes "is_control c"
  shows "unicode_escape (CHR ''0'') (CHR ''0'') (hex_char (of_char c div 16))
           (hex_char (of_char c mod 16)) = Some c"
proof -
  have z: "hex_val (CHR ''0'') = Some 0" by (simp add: hex_val_def)
  have lt: "(of_char c :: nat) < 32" using assms by (simp add: is_control_def)
  then have a: "hex_val (hex_char (of_char c div 16)) = Some (of_char c div 16)"
    by (intro hex_val_hex_char) simp
  have b: "hex_val (hex_char (of_char c mod 16)) = Some (of_char c mod 16)"
    by (intro hex_val_hex_char) simp
  show ?thesis
    using lt by (simp add: unicode_escape_def z a b Let_def)
qed

lemma escape_round:
  "parse_chars (escape_char c @ rest) =
     (case parse_chars rest of None \<Rightarrow> None | Some (s, r) \<Rightarrow> Some (c # s, r))"
proof (cases "is_control c")
  case False
  then have "c \<noteq> CHR 0x08" "c \<noteq> CHR 0x0C" "c \<noteq> CHR 0x0A" "c \<noteq> CHR 0x0D" "c \<noteq> CHR 0x09"
    by (auto simp: is_control_def)
  with False show ?thesis
    by (auto simp: escape_char_def unescape_char_def dquote_def bslash_def)
next
  case True
  then have "c \<noteq> dquote" "c \<noteq> bslash"
    by (auto simp: is_control_def dquote_def bslash_def)
  with True show ?thesis
    by (auto simp: escape_char_def unescape_char_def dquote_def bslash_def
        unicode_escape_control)
qed

lemma escape_char_no_control: "\<forall>x \<in> set (escape_char c). \<not> is_control x"
proof -
  have "d < 16 \<Longrightarrow> \<not> is_control (hex_char d)" for d
    by (simp add: is_control_def hex_char_def)
  then have "\<not> is_control (hex_char (of_char c div 16))" "\<not> is_control (hex_char (of_char c mod 16))"
    if "is_control c"
    using that by (simp_all add: is_control_def)
  then show ?thesis
    by (auto simp: escape_char_def is_control_def dquote_def bslash_def)
qed

lemma parse_chars_escaped:
  "parse_chars (concat (map escape_char s) @ dquote # rest) = Some (s, rest)"
  by (induction s) (simp_all add: escape_round)

lemma parse_string_quote: "parse_string (quote_string s @ rest) = Some (s, rest)"
  by (simp add: parse_string_def quote_string_def parse_chars_escaped)

lemma is_digit_digit_char: "d < 10 \<Longrightarrow> is_digit (digit_char d)"
  by (simp add: is_digit_def digit_char_def)

lemma digit_val_digit_char: "d < 10 \<Longrightarrow> digit_val (digit_char d) = d"
  by (simp add: digit_val_def digit_char_def)

lemma digits_all_digits: "\<forall>c \<in> set (digits n). is_digit c"
  by (induction n rule: digits.induct) (subst digits.simps, simp add: is_digit_digit_char)

lemma digits_nonempty: "digits n \<noteq> []"
  by (subst digits.simps) simp

lemma digits_hd_nonzero: "0 < n \<Longrightarrow> hd (digits n) \<noteq> CHR ''0''"
proof (induction n rule: digits.induct)
  case (1 n)
  show ?case
  proof (cases "n < 10")
    case True
    have "(of_char (digit_char n) :: nat) = 48 + n"
      using True by (simp add: digit_char_def)
    with 1(2) have "digit_char n \<noteq> CHR ''0''" by auto
    with True show ?thesis
      by (subst digits.simps) simp
  next
    case False
    then have "0 < n div 10" by simp
    with 1(1) False have "hd (digits (n div 10)) \<noteq> CHR ''0''" by simp
    with False show ?thesis
      by (subst digits.simps) (simp add: digits_nonempty)
  qed
qed

lemma digits_single: "n < 10 \<Longrightarrow> digits n = [digit_char n]"
  by (subst digits.simps) simp

lemma digits_no_leading_zero: "\<not> leading_zero (digits n)"
proof (cases "n = 0")
  case True
  then show ?thesis by (simp add: digits_single leading_zero_def)
next
  case False
  then have "hd (digits n) \<noteq> CHR ''0''" using digits_hd_nonzero by simp
  then show ?thesis
    by (auto simp: leading_zero_def split: list.splits)
qed

lemma digits_val_snoc: "digits_val (ds @ [c]) = 10 * digits_val ds + digit_val c"
  by (simp add: digits_val_def)

lemma digits_val_digits: "digits_val (digits n) = n"
proof (induction n rule: digits.induct)
  case (1 n)
  show ?case
  proof (cases "n < 10")
    case True
    then show ?thesis
      by (subst digits.simps) (simp add: digits_val_def digit_val_digit_char)
  next
    case False
    with 1 show ?thesis
      by (subst digits.simps) (simp add: digits_val_snoc digit_val_digit_char)
  qed
qed

lemma parse_nat_digits:
  assumes "stops_number rest"
  shows "parse_nat (digits n @ rest) = Some (n, rest)"
proof -
  have t: "takeWhile is_digit rest = []" and d: "dropWhile is_digit rest = rest"
    using assms by (auto simp: stops_number_def split: list.splits)
  have "takeWhile is_digit (digits n @ rest) = digits n"
    using digits_all_digits [of n] t by (simp add: takeWhile_append2)
  moreover have "dropWhile is_digit (digits n @ rest) = rest"
    using digits_all_digits [of n] d by (simp add: dropWhile_append2)
  ultimately show ?thesis
    by (simp add: parse_nat_def digits_nonempty digits_val_digits digits_no_leading_zero)
qed

lemma digits_hd: "\<exists>c cs. digits n = c # cs \<and> is_digit c"
  using digits_nonempty [of n] digits_all_digits [of n] by (cases "digits n") auto

lemma is_digit_minus: "\<not> is_digit (CHR ''-'')"
  by (simp add: is_digit_def)

lemma is_digit_dquote: "\<not> is_digit dquote"
  by (simp add: is_digit_def dquote_def)

lemma parse_int_dec:
  assumes "stops_number rest"
  shows "parse_int (dec i @ rest) = Some (i, rest)"
proof (cases "i < 0")
  case True
  then show ?thesis
    using parse_nat_digits [OF assms, of "nat (- i)"] by (simp add: dec_def parse_int_def)
next
  case False
  obtain c cs where h: "digits (nat i) = c # cs" "is_digit c"
    using digits_hd [of "nat i"] by blast
  then have "c \<noteq> CHR ''-''" using is_digit_minus by auto
  then show ?thesis
    using False h parse_nat_digits [OF assms, of "nat i"] by (simp add: dec_def parse_int_def)
qed

lemma dec_hd: "\<exists>c cs. dec i = c # cs \<and> c \<noteq> dquote"
proof (cases "i < 0")
  case True
  then show ?thesis by (simp add: dec_def dquote_def)
next
  case False
  then show ?thesis
    using digits_hd [of "nat i"] is_digit_dquote by (auto simp: dec_def)
qed

lemma parse_value_serialize:
  assumes "stops_number rest"
  shows "parse_value (serialize_value v @ rest) = Some (v, rest)"
proof (cases v)
  case (JString s)
  then show ?thesis
    by (simp add: parse_value_def quote_string_def parse_chars_escaped)
next
  case (JInt i)
  obtain c cs where h: "dec i = c # cs" "c \<noteq> dquote"
    using dec_hd [of i] by blast
  have "parse_int (dec i @ rest) = Some (i, rest)"
    using assms by (rule parse_int_dec)
  with h JInt show ?thesis
    by (simp add: parse_value_def)
qed

lemma parse_member_serialize:
  assumes "stops_number rest"
  shows "parse_member (serialize_member kv @ rest) = Some (kv, rest)"
  using parse_value_serialize [OF assms, of "snd kv"]
  by (simp add: parse_member_def serialize_member_def parse_string_quote)

lemma stops_comma: "stops_number (CHR '','' # r)"
  by (simp add: stops_number_def is_digit_def)

lemma stops_brace: "stops_number (CHR ''}'' # r)"
  by (simp add: stops_number_def is_digit_def)

lemma parse_members_serialize:
  "ms \<noteq> [] \<Longrightarrow> parse_members (serialize_members ms @ CHR ''}'' # rest) = Some (ms, rest)"
proof (induction ms rule: serialize_members.induct)
  case 1
  then show ?case by simp
next
  case (2 kv)
  show ?case
    by (subst parse_members.simps) (simp add: parse_member_serialize [OF stops_brace])
next
  case (3 kv v va)
  then show ?case
    by (subst parse_members.simps) (simp add: parse_member_serialize [OF stops_comma])
qed

lemma serialize_member_hd: "\<exists>cs. serialize_member kv = dquote # cs"
  by (simp add: serialize_member_def quote_string_def)

lemma serialize_members_hd: "ms \<noteq> [] \<Longrightarrow> \<exists>cs. serialize_members ms = dquote # cs"
proof (induction ms rule: serialize_members.induct)
  case 1
  then show ?case by simp
next
  case (2 kv)
  then show ?case using serialize_member_hd [of kv] by simp
next
  case (3 kv v va)
  then show ?case using serialize_member_hd [of kv] by auto
qed

lemma parse_object_serializeJson: "parse_object (serializeJson doc) = Some doc"
proof (cases "doc = []")
  case True
  then show ?thesis by (simp add: parse_object_def serializeJson_def)
next
  case False
  then obtain cs where h: "serialize_members doc = dquote # cs"
    using serialize_members_hd by blast
  have "parse_members (serialize_members doc @ CHR ''}'' # []) = Some (doc, [])"
    using False by (rule parse_members_serialize)
  with h show ?thesis
    by (simp add: parse_object_def serializeJson_def dquote_def)
qed

lemma build_doc_members:
  "build_doc d =
     [(''clamp_id'', JString (clampId d)), (''status'', JString (clampStatus d)),
      (''city'', JString (clampCity d)), (''battery_level'', JInt (sint (batteryLevel d)))]"
  by (simp add: build_doc_def)

lemma digits_no_control: "list_all (\<lambda>c. \<not> is_control c) (digits n)"
proof -
  have "is_digit c \<Longrightarrow> \<not> is_control c" for c
    by (simp add: is_digit_def is_control_def)
  then show ?thesis
    using digits_all_digits [of n] by (auto simp: list_all_iff)
qed

lemma sep_no_control:
  "\<not> is_control (CHR '':'')" "\<not> is_control (CHR '','')" "\<not> is_control (CHR ''{'')"
  "\<not> is_control (CHR ''}'')" "\<not> is_control (CHR ''-'')" "\<not> is_control dquote"
  by (simp_all add: is_control_def dquote_def)

lemma dec_no_control: "list_all (\<lambda>c. \<not> is_control c) (dec i)"
  by (simp add: dec_def digits_no_control sep_no_control)

lemma quote_string_no_control: "list_all (\<lambda>c. \<not> is_control c) (quote_string s)"
proof -
  have "list_all (\<lambda>c. \<not> is_control c) (concat (map escape_char s))"
    using escape_char_no_control by (induction s) (auto simp: list_all_iff)
  then show ?thesis
    by (simp add: quote_string_def sep_no_control)
qed

lemma serialize_member_no_control: "list_all (\<lambda>c. \<not> is_control c) (serialize_member kv)"
proof (cases "snd kv")
  case (JString x)
  then show ?thesis
    by (simp add: serialize_member_def quote_string_no_control sep_no_control)
next
  case (JInt i)
  then show ?thesis
    by (simp add: serialize_member_def quote_string_no_control dec_no_control sep_no_control)
qed

lemma serialize_members_no_control: "list_all (\<lambda>c. \<not> is_control c) (serialize_members ms)"
  by (induction ms rule: serialize_members.induct)
     (simp_all add: serialize_member_no_control sep_no_control)

lemma serializeJson_no_control: "list_all (\<lambda>c. \<not> is_control c) (serializeJson doc)"
  by (simp add: serializeJson_def serialize_members_no_control sep_no_control)

lemma awkward_clampId_text:
  "quote_string (clampId awkward_status) =
     [dquote, CHR ''a'', bslash, dquote, bslash, bslash,
      bslash, CHR ''u'', CHR ''0'', CHR ''0'', CHR ''0'', CHR ''1'', bslash, CHR ''n'', dquote]"
  by code_simp

lemma awkward_battery: "sint (batteryLevel awkward_status) = - 7"
  by (simp add: awkward_status_def)

text \<open>
  Claim C4: for every record, the document built before sending has exactly the four
  members \<^verbatim>\<open>clamp_id\<close>, \<^verbatim>\<open>status\<close>, \<^verbatim>\<open>city\<close> and \<^verbatim>\<open>battery_level\<close>, the three
  strings as JSON strings and the battery level as a JSON integer, and parsing the payload
  text gives back these four members with the values the record held. The payload text
  holds no control character: those of the record's strings are escaped.
\<close>

theorem payload_round_trip:
  "build_doc d =
     [(''clamp_id'', JString (clampId d)), (''status'', JString (clampStatus d)),
      (''city'', JString (clampCity d)), (''battery_level'', JInt (sint (batteryLevel d)))]
   \<and> parse_object (requestBody d) =
       Some [(''clamp_id'', JString (clampId d)), (''status'', JString (clampStatus d)),
             (''city'', JString (clampCity d)),
             (''battery_level'', JInt (sint (batteryLevel d)))]
   \<and> list_all (\<lambda>c. \<not> is_control c) (requestBody d)"
  by (simp add: requestBody_def parse_object_serializeJson build_doc_members
      serializeJson_no_control)

lemma initial_payload:
  \<open>requestBody initial_status =
   ''{"clamp_id":"PHYSICAL_CLAMP_001","status":"available","city":"Pune","battery_level":95}''\<close>
  by code_simp

theorem payload_round_trip_witness:
  "parse_object (requestBody initial_status) =
     Some [(''clamp_id'', JString ''PHYSICAL_CLAMP_001''), (''status'', JString ''available''),
           (''city'', JString ''Pune''), (''battery_level'', JInt 95)]
   \<and> parse_object (requestBody awkward_status) =
     Some [(''clamp_id'', JString [CHR ''a'', CHR 0x22, CHR 0x5C, CHR 0x01, CHR 0x0A]),
           (''status'', JString ''available''), (''city'', JString ''X''),
           (''battery_level'', JInt (- 7))]"
  using payload_round_trip [where d = initial_status]
    payload_round_trip [where d = awkward_status]
  by (simp add: initial_status_def awkward_battery) (simp add: awkward_status_def)

section \<open>Sending a report\<close>

lemma dev_emit: "dev (emit m es) = dev m"
  by (simp add: emit_def)

lemma trace_emit: "trace (emit m es) = trace m @ es"
  by (simp add: emit_def)

lemma emit_emit: "emit (emit m es) fs = emit m (es @ fs)"
  by (simp add: emit_def)

lemma emit_Nil: "emit m [] = m"
  by (simp add: emit_def)

lemma dev_boot: "dev boot = initial_status"
  by (simp add: boot_def)

lemma dev_sendStatusUpdate: "dev (sendStatusUpdate env m) = dev m"
  by (simp add: sendStatusUpdate_def Let_def dev_emit)

lemma trace_send_offline:
  "wifi_status env \<noteq> WL_CONNECTED \<Longrightarrow>
   trace (sendStatusUpdate env m) =
     trace m @ [println ''WiFi not connected. Cannot send status update.'']"
  by (simp add: sendStatusUpdate_def trace_emit)

lemma trace_send_online:
  "wifi_status env = WL_CONNECTED \<Longrightarrow>
   trace (sendStatusUpdate env m) =
     trace m @
     [SerialPrint ''Sending status to: '', println serverPath, HttpBegin serverPath,
      HttpAddHeader ''Content-Type'' ''application/json'',
      SerialPrint ''Request Body: '', println (requestBody (dev m)),
      HttpPOST (requestBody (dev m))] @
     (if 0 <s post_result env then
        [SerialPrint (''HTTP Response code: '' @ dec (sint (post_result env)) @ [CHR 0x0A]),
         HttpGetString, println (response_body env), HttpEnd]
      else
        [SerialPrint (''HTTP Error: '' @ error_string env (post_result env) @ [CHR 0x0A]),
         HttpEnd])"
  by (simp add: sendStatusUpdate_def Let_def trace_emit)

lemma is_http_println: "\<not> is_http (println s)"
  by (simp add: println_def)

lemma is_log_println: "is_log (println s)"
  by (simp add: println_def)

lemma serverPath_text: "serverPath = ''http://192.168.1.8:5000/api/clamp_status_update''"
  by code_simp

text \<open>
  Claim C5: when \<^verbatim>\<open>sendStatusUpdate\<close> runs while the link is not connected, it makes no
  call into the HTTP client (it only prints one line) and leaves the four fields of the
  record as they were.
\<close>

theorem send_offline_is_silent:
  assumes "wifi_status env \<noteq> WL_CONNECTED"
  shows "filter is_http (trace (sendStatusUpdate env m)) = filter is_http (trace m)
     \<and> trace (sendStatusUpdate env m) =
         trace m @ [println ''WiFi not connected. Cannot send status update.'']
     \<and> clampId (dev (sendStatusUpdate env m)) = clampId (dev m)
     \<and> clampCity (dev (sendStatusUpdate env m)) = clampCity (dev m)
     \<and> batteryLevel (dev (sendStatusUpdate env m)) = batteryLevel (dev m)
     \<and> clampStatus (dev (sendStatusUpdate env m)) = clampStatus (dev m)"
  using assms by (simp add: trace_send_offline dev_sendStatusUpdate is_http_println)

theorem send_offline_is_silent_witness:
  "wifi_status env_offline \<noteq> WL_CONNECTED
   \<and> filter is_http (trace (sendStatusUpdate env_offline boot)) = []
   \<and> trace (sendStatusUpdate env_offline boot) =
       [println ''WiFi not connected. Cannot send status update.'']
   \<and> dev (sendStatusUpdate env_offline boot) = initial_status"
proof -
  have h: "wifi_status env_offline \<noteq> WL_CONNECTED" by (simp add: env_offline_def)
  have d: "dev boot = initial_status" and t: "trace boot = []" by (simp_all add: boot_def)
  show ?thesis
    using h d t send_offline_is_silent [OF h, of boot]
    by (simp add: is_http_println initial_status_def)
qed

text \<open>
  Claim C9: a report is one HTTP POST. When the link is connected, the calls into the HTTP
  client are: open the URL made of \<^verbatim>\<open>http://\<close>, the configured host, a colon, the
  configured port and the configured path, add the header
  \<^verbatim>\<open>Content-Type: application/json\<close>, post the payload once, read the response when the
  code is positive, and close.
\<close>

theorem report_is_one_post:
  assumes "wifi_status env = WL_CONNECTED"
  shows "filter is_http (trace (sendStatusUpdate env m)) =
       filter is_http (trace m) @
       [HttpBegin serverPath, HttpAddHeader ''Content-Type'' ''application/json'',
        HttpPOST (requestBody (dev m))] @
       (if 0 <s post_result env then [HttpGetString] else []) @ [HttpEnd]
     \<and> serverPath =
         ''http://'' @ flaskAppHost @ '':'' @ dec (sint flaskAppPort) @ statusUpdateEndpoint
     \<and> serverPath = ''http://192.168.1.8:5000/api/clamp_status_update''"
  using assms
  by (simp add: trace_send_online is_http_println) (simp add: serverPath_text [symmetric] serverPath_def)

theorem report_is_one_post_witness:
  "wifi_status env_500 = WL_CONNECTED
   \<and> filter is_http (trace (sendStatusUpdate env_500 boot)) =
       [HttpBegin ''http://192.168.1.8:5000/api/clamp_status_update'',
        HttpAddHeader ''Content-Type'' ''application/json'',
        HttpPOST (requestBody initial_status), HttpGetString, HttpEnd]"
proof -
  have h: "wifi_status env_500 = WL_CONNECTED" by (simp add: env_500_def)
  have p: "0 <s post_result env_500" by (simp add: env_500_def word_sless_alt)
  have d: "dev boot = initial_status" and t: "trace boot = []" by (simp_all add: boot_def)
  show ?thesis using h p d t report_is_one_post [OF h, of boot] by simp
qed

section \<open>The reporting cycle\<close>

lemma dev_loop: "dev (loop env m) = tick (dev m)"
  by (simp add: loop_def dev_emit dev_sendStatusUpdate)

lemma dev_run: "dev (run envs m) = (tick ^^ length envs) (dev m)"
  by (induction envs arbitrary: m) (simp_all add: dev_loop funpow_swap1)

lemma not_log_trace_send:
  "filter not_log (trace (sendStatusUpdate env m)) =
     filter not_log (trace m) @
     (if wifi_status env = WL_CONNECTED
      then [HttpBegin serverPath, HttpAddHeader ''Content-Type'' ''application/json'',
            HttpPOST (requestBody (dev m)), HttpEnd]
      else [])"
  by (simp add: trace_send_online trace_send_offline not_log_def is_log_println)

lemma trace_loop:
  "trace (loop env m) = trace (sendStatusUpdate env (m\<lparr>dev := tick (dev m)\<rparr>)) @ [Delay 5000]"
  by (simp add: loop_def trace_emit)

lemma delays_send:
  "filter ((=) (Delay 5000)) (trace (sendStatusUpdate env m)) = filter ((=) (Delay 5000)) (trace m)"
  by (cases "wifi_status env = WL_CONNECTED")
     (simp_all add: trace_send_online trace_send_offline println_def)

lemma delays_loop:
  "filter ((=) (Delay 5000)) (trace (loop env m)) =
     filter ((=) (Delay 5000)) (trace m) @ [Delay 5000]"
  by (simp add: trace_loop delays_send)

lemma delays_run:
  "filter ((=) (Delay 5000)) (trace (run envs m)) =
     filter ((=) (Delay 5000)) (trace m) @ replicate (length envs) (Delay 5000)"
  by (induction envs arbitrary: m) (simp_all add: delays_loop replicate_app_Cons_same)

lemma dec_500: "dec (sint (500 :: 32 word)) = ''500''"
  by code_simp

text \<open>
  Claim C6: whatever the send operation meets (a client error code, a negative code, or
  any HTTP status code, 500 included), the outcome is written to the diagnostic output
  and has no other effect. A connected send prints the response code and the response
  body when the code is positive and the error text otherwise, after the same request in
  both cases, and this is all it appends to the trace. The send leaves the record as it
  was, so that after one iteration of the loop the record is the one the tick produced;
  answering the same cycle with another outcome changes neither the record nor any event
  of the trace that is not diagnostic output; and the loop goes on to the next cycle:
  after any sequence of outcomes the record is the result of one tick per cycle, and
  every cycle has ended with its delay of five seconds.
\<close>

theorem send_outcome_only_logged:
  "dev (sendStatusUpdate env m) = dev m
   \<and> dev (loop env m) = tick (dev m)
   \<and> dev (loop (env\<lparr>post_result := c, response_body := b, error_string := e\<rparr>) m) =
       dev (loop env m)
   \<and> filter not_log (trace (loop (env\<lparr>post_result := c, response_body := b, error_string := e\<rparr>) m)) =
       filter not_log (trace (loop env m))
   \<and> dev (run envs m) = (tick ^^ length envs) (dev m)
   \<and> filter ((=) (Delay 5000)) (trace (run envs boot)) = replicate (length envs) (Delay 5000)
   \<and> trace (sendStatusUpdate env m) =
       trace m @
       (if wifi_status env = WL_CONNECTED then
          [SerialPrint ''Sending status to: '', println serverPath, HttpBegin serverPath,
           HttpAddHeader ''Content-Type'' ''application/json'',
           SerialPrint ''Request Body: '', println (requestBody (dev m)),
           HttpPOST (requestBody (dev m))] @
          (if 0 <s post_result env then
             [SerialPrint (''HTTP Response code: '' @ dec (sint (post_result env)) @ [CHR 0x0A]),
              HttpGetString, println (response_body env), HttpEnd]
           else
             [SerialPrint (''HTTP Error: '' @ error_string env (post_result env) @ [CHR 0x0A]),
              HttpEnd])
        else [println ''WiFi not connected. Cannot send status update.''])
   \<and> trace (loop env m) =
       trace (sendStatusUpdate env (m\<lparr>dev := tick (dev m)\<rparr>)) @ [Delay 5000]"
proof -
  have "filter ((=) (Delay 5000)) (trace (run envs boot)) = replicate (length envs) (Delay 5000)"
    by (simp add: delays_run) (simp add: boot_def)
  moreover have "trace (sendStatusUpdate env m) =
       trace m @
       (if wifi_status env = WL_CONNECTED then
          [SerialPrint ''Sending status to: '', println serverPath, HttpBegin serverPath,
           HttpAddHeader ''Content-Type'' ''application/json'',
           SerialPrint ''Request Body: '', println (requestBody (dev m)),
           HttpPOST (requestBody (dev m))] @
          (if 0 <s post_result env then
             [SerialPrint (''HTTP Response code: '' @ dec (sint (post_result env)) @ [CHR 0x0A]),
              HttpGetString, println (response_body env), HttpEnd]
           else
             [SerialPrint (''HTTP Error: '' @ error_string env (post_result env) @ [CHR 0x0A]),
              HttpEnd])
        else [println ''WiFi not connected. Cannot send status update.''])"
    by (cases "wifi_status env = WL_CONNECTED")
       (simp_all add: trace_send_online trace_send_offline)
  moreover have "dev (sendStatusUpdate env m) = dev m
   \<and> dev (loop env m) = tick (dev m)
   \<and> dev (loop (env\<lparr>post_result := c, response_body := b, error_string := e\<rparr>) m) =
       dev (loop env m)
   \<and> filter not_log (trace (loop (env\<lparr>post_result := c, response_body := b, error_string := e\<rparr>) m)) =
       filter not_log (trace (loop env m))
   \<and> dev (run envs m) = (tick ^^ length envs) (dev m)"
    by (simp add: dev_sendStatusUpdate dev_loop dev_run trace_loop not_log_trace_send)
  moreover note trace_loop [of env m]
  ultimately show ?thesis by blast
qed

theorem send_outcome_only_logged_witness:
  "dev (loop env_500 boot) = tick initial_status
   \<and> dev (loop env_refused boot) = dev (loop env_500 boot)
   \<and> filter not_log (trace (loop env_refused boot)) = filter not_log (trace (loop env_500 boot))
   \<and> dev (run [env_500, env_refused, env_offline] boot) = tick (tick (tick initial_status))
   \<and> trace (sendStatusUpdate env_500 boot) =
       [SerialPrint ''Sending status to: '', println serverPath, HttpBegin serverPath,
        HttpAddHeader ''Content-Type'' ''application/json'',
        SerialPrint ''Request Body: '', println (requestBody initial_status),
        HttpPOST (requestBody initial_status),
        SerialPrint (''HTTP Response code: 500'' @ [CHR 0x0A]),
        HttpGetString, println ''Internal Server Error'', HttpEnd]
   \<and> trace (sendStatusUpdate env_refused boot) =
       [SerialPrint ''Sending status to: '', println serverPath, HttpBegin serverPath,
        HttpAddHeader ''Content-Type'' ''application/json'',
        SerialPrint ''Request Body: '', println (requestBody initial_status),
        HttpPOST (requestBody initial_status),
        SerialPrint (''HTTP Error: connection refused'' @ [CHR 0x0A]), HttpEnd]"
proof -
  have e: "env_500\<lparr>post_result := - 1, response_body := [],
      error_string := (\<lambda>c. ''connection refused'')\<rparr> = env_refused"
    by (simp add: env_500_def env_refused_def)
  have p: "0 <s post_result env_500" "\<not> 0 <s post_result env_refused"
    by (simp_all add: env_500_def env_refused_def word_sless_alt)
  have f: "wifi_status env_500 = WL_CONNECTED" "wifi_status env_refused = WL_CONNECTED"
    "response_body env_500 = ''Internal Server Error''"
    "error_string env_refused (post_result env_refused) = ''connection refused''"
    by (simp_all add: env_500_def env_refused_def)
  have d: "dec (sint (post_result env_500)) = ''500''"
    using dec_500 by (simp add: env_500_def)
  have t: "trace boot = []" by (simp add: boot_def)
  note a = send_outcome_only_logged
      [where env = env_500 and m = boot and c = "- 1" and b = "[]"
         and e = "\<lambda>c. ''connection refused''" and envs = "[env_500, env_refused, env_offline]"]
  note b = send_outcome_only_logged
      [where env = env_refused and m = boot and c = "- 1" and b = "[]"
         and e = "\<lambda>c. ''connection refused''" and envs = "[]"]
  have "dev (loop env_500 boot) = tick initial_status"
    using a [THEN conjunct2, THEN conjunct1] by (simp add: dev_boot)
  moreover have "dev (loop env_refused boot) = dev (loop env_500 boot)"
    using a [THEN conjunct2, THEN conjunct2, THEN conjunct1] by (simp only: e)
  moreover have "filter not_log (trace (loop env_refused boot)) =
      filter not_log (trace (loop env_500 boot))"
    using a [THEN conjunct2, THEN conjunct2, THEN conjunct2, THEN conjunct1] by (simp only: e)
  moreover have "dev (run [env_500, env_refused, env_offline] boot) =
      tick (tick (tick initial_status))"
    using a [THEN conjunct2, THEN conjunct2, THEN conjunct2, THEN conjunct2, THEN conjunct1]
    by (simp add: dev_boot)
  moreover have "trace (sendStatusUpdate env_500 boot) =
       [SerialPrint ''Sending status to: '', println serverPath, HttpBegin serverPath,
        HttpAddHeader ''Content-Type'' ''application/json'',
        SerialPrint ''Request Body: '', println (requestBody initial_status),
        HttpPOST (requestBody initial_status),
        SerialPrint (''HTTP Response code: 500'' @ [CHR 0x0A]),
        HttpGetString, println ''Internal Server Error'', HttpEnd]"
    using a [THEN conjunct2, THEN conjunct2, THEN conjunct2, THEN conjunct2, THEN conjunct2,
        THEN conjunct2, THEN conjunct1]
    by (simp add: p f d t dev_boot)
  moreover have "trace (sendStatusUpdate env_refused boot) =
       [SerialPrint ''Sending status to: '', println serverPath, HttpBegin serverPath,
        HttpAddHeader ''Content-Type'' ''application/json'',
        SerialPrint ''Request Body: '', println (requestBody initial_status),
        HttpPOST (requestBody initial_status),
        SerialPrint (''HTTP Error: connection refused'' @ [CHR 0x0A]), HttpEnd]"
    using b [THEN conjunct2, THEN conjunct2, THEN conjunct2, THEN conjunct2, THEN conjunct2,
        THEN conjunct2, THEN conjunct1]
    by (simp add: p f t dev_boot)
  ultimately show ?thesis by blast
qed

lemma ticks_initial_battery:
  "n \<le> 95 \<Longrightarrow> sint (batteryLevel ((tick ^^ n) initial_status)) = 95 - int n"
  by (simp add: ticks_battery initial_battery)

lemma ticks_initial_status:
  "clampStatus ((tick ^^ n) initial_status) = (if n \<le> 95 then ''available'' else ''low_battery'')"
  by (simp add: ticks_status initial_battery) (simp add: initial_status_def)

lemma drained_record:
  "(tick ^^ 95) initial_status =
     \<lparr>clampId = ''PHYSICAL_CLAMP_001'', clampCity = ''Pune'',
      batteryLevel = 0, clampStatus = ''available''\<rparr>"
proof -
  have "sint (batteryLevel ((tick ^^ 95) initial_status)) = 0"
    by (simp add: ticks_initial_battery)
  then have "batteryLevel ((tick ^^ 95) initial_status) = 0"
    by (simp only: signed_eq_0_iff)
  moreover have "clampStatus ((tick ^^ 95) initial_status) = ''available''"
    by (simp add: ticks_initial_status)
  moreover have "clampId ((tick ^^ 95) initial_status) = ''PHYSICAL_CLAMP_001''"
    by (simp add: ticks_clampId) (simp add: initial_status_def)
  moreover have "clampCity ((tick ^^ 95) initial_status) = ''Pune''"
    by (simp add: ticks_clampCity) (simp add: initial_status_def)
  ultimately show ?thesis
    by (cases "(tick ^^ 95) initial_status") simp
qed

lemma drained_payload:
  \<open>requestBody \<lparr>clampId = ''PHYSICAL_CLAMP_001'', clampCity = ''Pune'',
      batteryLevel = 0, clampStatus = ''available''\<rparr> =
   ''{"clamp_id":"PHYSICAL_CLAMP_001","status":"available","city":"Pune","battery_level":0}''\<close>
  by code_simp

text \<open>
  Claim C7: a state with battery level zero and status \<^verbatim>\<open>"available"\<close> is reachable.
  From the initial record (level 95, status \<^verbatim>\<open>"available"\<close>), after exactly 95
  iterations of the loop the level is zero and the status still is \<^verbatim>\<open>"available"\<close>, and
  the payload posted in that iteration says so; the status is \<^verbatim>\<open>"available"\<close> after
  every smaller number of iterations as well, and is \<^verbatim>\<open>"low_battery"\<close> after the 96th.
\<close>

theorem empty_battery_reported_available:
  \<open>(length envs = 95 \<longrightarrow>
      batteryLevel (dev (run envs boot)) = 0 \<and> clampStatus (dev (run envs boot)) = ''available'')
   \<and> (length envs = 94 \<and> wifi_status env = WL_CONNECTED \<longrightarrow>
        HttpPOST ''{"clamp_id":"PHYSICAL_CLAMP_001","status":"available","city":"Pune","battery_level":0}''
          \<in> set (trace (loop env (run envs boot))))
   \<and> (length envs \<le> 95 \<longrightarrow> clampStatus (dev (run envs boot)) = ''available'')
   \<and> (length envs = 96 \<longrightarrow>
        batteryLevel (dev (run envs boot)) = 0 \<and> clampStatus (dev (run envs boot)) = ''low_battery'')\<close>
proof -
  have a: "length envs = 95 \<longrightarrow>
      batteryLevel (dev (run envs boot)) = 0 \<and> clampStatus (dev (run envs boot)) = ''available''"
    by (simp add: dev_run dev_boot drained_record)
  have "(95::nat) = Suc 94" by simp
  then have "(tick ^^ 95) initial_status = tick ((tick ^^ 94) initial_status)"
    by (simp only: funpow.simps o_apply)
  then have "length envs = 94 \<Longrightarrow> tick (dev (run envs boot)) = (tick ^^ 95) initial_status"
    by (simp add: dev_run dev_boot)
  then have b: \<open>length envs = 94 \<and> wifi_status env = WL_CONNECTED \<longrightarrow>
        HttpPOST ''{"clamp_id":"PHYSICAL_CLAMP_001","status":"available","city":"Pune","battery_level":0}''
          \<in> set (trace (loop env (run envs boot)))\<close>
    by (simp add: trace_loop trace_send_online drained_record drained_payload)
  have c: "length envs \<le> 95 \<longrightarrow> clampStatus (dev (run envs boot)) = ''available''"
    by (simp add: dev_run dev_boot ticks_initial_status)
  have "sint (batteryLevel ((tick ^^ 96) initial_status)) = 0"
    by (simp add: ticks_battery initial_battery)
  then have "batteryLevel ((tick ^^ 96) initial_status) = 0"
    by (simp only: signed_eq_0_iff)
  then have d: "length envs = 96 \<longrightarrow>
        batteryLevel (dev (run envs boot)) = 0 \<and> clampStatus (dev (run envs boot)) = ''low_battery''"
    by (simp add: dev_run dev_boot ticks_initial_status)
  from a b c d show ?thesis by blast
qed

theorem empty_battery_reported_available_witness:
  \<open>batteryLevel (dev (run (replicate 95 env_ok) boot)) = 0
   \<and> clampStatus (dev (run (replicate 95 env_ok) boot)) = ''available''
   \<and> HttpPOST ''{"clamp_id":"PHYSICAL_CLAMP_001","status":"available","city":"Pune","battery_level":0}''
       \<in> set (trace (loop env_ok (run (replicate 94 env_500) boot)))
   \<and> clampStatus (dev (run (replicate 17 env_offline) boot)) = ''available''
   \<and> batteryLevel (dev (run (replicate 96 env_ok) boot)) = 0
   \<and> clampStatus (dev (run (replicate 96 env_ok) boot)) = ''low_battery''\<close>
proof -
  have c: "wifi_status env_ok = WL_CONNECTED" by (simp add: env_ok_def)
  show ?thesis
    using c
      empty_battery_reported_available [where envs = "replicate 95 env_ok" and env = env_ok]
      empty_battery_reported_available [where envs = "replicate 94 env_500" and env = env_ok]
      empty_battery_reported_available [where envs = "replicate 17 env_offline" and env = env_ok]
      empty_battery_reported_available [where envs = "replicate 96 env_ok" and env = env_ok]
    by simp
qed

section \<open>Connecting\<close>

lemma wait_connected_found:
  "link (k + n) = WL_CONNECTED \<Longrightarrow> (\<forall>j<n. link (k + j) \<noteq> WL_CONNECTED) \<Longrightarrow>
   wait_connected link k m = Some (emit m (dots n))"
proof (induction n arbitrary: k m)
  case 0
  then show ?case
    by (subst wait_connected.simps) (simp add: emit_Nil dots_def)
next
  case (Suc n)
  have nk: "link k \<noteq> WL_CONNECTED"
    using Suc.prems(2) by (metis add.right_neutral zero_less_Suc)
  have "link (Suc k + n) = WL_CONNECTED"
    using Suc.prems(1) by simp
  moreover have "\<forall>j<n. link (Suc k + j) \<noteq> WL_CONNECTED"
    using Suc.prems(2) by (metis Suc_less_eq add_Suc_shift)
  ultimately have "wait_connected link (Suc k) (emit m [Delay 1000, SerialPrint ''.'']) =
      Some (emit (emit m [Delay 1000, SerialPrint ''.'']) (dots n))"
    by (rule Suc.IH)
  then show ?case
    using nk by (subst wait_connected.simps) (simp add: emit_emit dots_def)
qed

lemma wait_connected_Some:
  assumes "wait_connected link k m = Some m'"
  shows "\<exists>j. link (k + j) = WL_CONNECTED"
proof (rule wait_connected.raw_induct
    [where P = "\<lambda>l k m y. \<exists>j. l (k + j) = WL_CONNECTED" and link = link and k = k and m = m
       and y = m'])
  fix w :: "(nat \<Rightarrow> wl_status_t) \<Rightarrow> nat \<Rightarrow> machine \<Rightarrow> machine option"
  fix l :: "nat \<Rightarrow> wl_status_t" and k m y
  assume IH: "\<And>l' k' m' y'. w l' k' m' = Some y' \<Longrightarrow> \<exists>j. l' (k' + j) = WL_CONNECTED"
    and eq: "(if l k \<noteq> WL_CONNECTED
              then w l (Suc k) (emit m [Delay 1000, SerialPrint ''.''])
              else Some m) = Some y"
  show "\<exists>j. l (k + j) = WL_CONNECTED"
  proof (cases "l k = WL_CONNECTED")
    case True
    then have "l (k + 0) = WL_CONNECTED" by simp
    then show ?thesis by blast
  next
    case False
    with eq have "w l (Suc k) (emit m [Delay 1000, SerialPrint ''.'']) = Some y"
      by simp
    then obtain j where "l (Suc k + j) = WL_CONNECTED"
      using IH by blast
    then have "l (k + Suc j) = WL_CONNECTED" by simp
    then show ?thesis by blast
  qed
next
  show "wait_connected link k m = Some m'" by fact
qed

lemma first_connected:
  fixes link :: "nat \<Rightarrow> wl_status_t"
  assumes "link n = WL_CONNECTED"
  shows "\<exists>n0. link n0 = WL_CONNECTED \<and> (\<forall>j<n0. link j \<noteq> WL_CONNECTED)"
proof -
  let ?n0 = "LEAST i. link i = WL_CONNECTED"
  have "link ?n0 = WL_CONNECTED"
    using assms LeastI [of "\<lambda>i. link i = WL_CONNECTED" n] by simp
  moreover have "\<forall>j<?n0. link j \<noteq> WL_CONNECTED"
    using not_less_Least [of _ "\<lambda>i. link i = WL_CONNECTED"] by blast
  ultimately show ?thesis by blast
qed

lemma connectToWiFi_found:
  assumes "link n = WL_CONNECTED" and "\<forall>j<n. link j \<noteq> WL_CONNECTED"
  shows "connectToWiFi link ip m =
     Some (emit m
       ([SerialPrint ''Connecting to WiFi: '', println ssid, WiFiBegin ssid] @
        dots n @
        [println (CHR 0x0A # ''WiFi Connected!''), SerialPrint ''ESP32 IP Address: '',
         println ip]))"
proof -
  have "wait_connected link 0
      (emit m [SerialPrint ''Connecting to WiFi: '', println ssid, WiFiBegin ssid]) =
    Some (emit (emit m [SerialPrint ''Connecting to WiFi: '', println ssid, WiFiBegin ssid])
      (dots n))"
    using assms by (intro wait_connected_found) simp_all
  then show ?thesis
    by (simp add: connectToWiFi_def emit_emit)
qed

lemma connectToWiFi_never:
  assumes "\<forall>k. link k \<noteq> WL_CONNECTED"
  shows "connectToWiFi link ip m = None"
proof (cases "wait_connected link 0
      (emit m [SerialPrint ''Connecting to WiFi: '', println ssid, WiFiBegin ssid])")
  case None
  then show ?thesis by (simp add: connectToWiFi_def)
next
  case (Some m1)
  then have "\<exists>j. link (0 + j) = WL_CONNECTED" by (rule wait_connected_Some)
  with assms show ?thesis by simp
qed

text \<open>
  Claim C10: \<^verbatim>\<open>connectToWiFi\<close> polls the link, waiting one second after each poll that
  does not find it connected, and returns if and only if some poll finds the link
  connected. If no poll ever does, the call does not return. When the \<open>n\<close>-th poll is the
  first to find the link connected, the call returns after \<open>n\<close> waits of one second.
  The result is a machine state and never an error value.
\<close>

theorem connect_returns_iff_link_comes_up:
  "((\<exists>m'. connectToWiFi link ip m = Some m') \<longleftrightarrow> (\<exists>k. link k = WL_CONNECTED))
   \<and> ((\<forall>k. link k \<noteq> WL_CONNECTED) \<longrightarrow> connectToWiFi link ip m = None)
   \<and> (link n = WL_CONNECTED \<and> (\<forall>j<n. link j \<noteq> WL_CONNECTED) \<longrightarrow>
        connectToWiFi link ip m =
          Some (emit m
            ([SerialPrint ''Connecting to WiFi: '', println ssid, WiFiBegin ssid] @
             dots n @
             [println (CHR 0x0A # ''WiFi Connected!''), SerialPrint ''ESP32 IP Address: '',
              println ip])))"
proof -
  have never: "(\<forall>k. link k \<noteq> WL_CONNECTED) \<longrightarrow> connectToWiFi link ip m = None"
    using connectToWiFi_never by blast
  have found: "link n = WL_CONNECTED \<and> (\<forall>j<n. link j \<noteq> WL_CONNECTED) \<longrightarrow>
        connectToWiFi link ip m =
          Some (emit m
            ([SerialPrint ''Connecting to WiFi: '', println ssid, WiFiBegin ssid] @
             dots n @
             [println (CHR 0x0A # ''WiFi Connected!''), SerialPrint ''ESP32 IP Address: '',
              println ip]))"
    using connectToWiFi_found by blast
  have "(\<exists>m'. connectToWiFi link ip m = Some m') \<longleftrightarrow> (\<exists>k. link k = WL_CONNECTED)"
  proof
    assume "\<exists>m'. connectToWiFi link ip m = Some m'"
    then show "\<exists>k. link k = WL_CONNECTED"
      using never by auto
  next
    assume "\<exists>k. link k = WL_CONNECTED"
    then obtain n0 where "link n0 = WL_CONNECTED" and "\<forall>j<n0. link j \<noteq> WL_CONNECTED"
      using first_connected by blast
    then show "\<exists>m'. connectToWiFi link ip m = Some m'"
      using connectToWiFi_found by blast
  qed
  with never found show ?thesis by blast
qed

theorem connect_returns_iff_link_comes_up_witness:
  "link_up_after 3 3 = WL_CONNECTED
   \<and> connectToWiFi (link_up_after 3) ''192.168.1.23'' boot =
       Some (emit boot
         ([SerialPrint ''Connecting to WiFi: '', println ssid, WiFiBegin ssid] @
          [Delay 1000, SerialPrint ''.'', Delay 1000, SerialPrint ''.'', Delay 1000,
           SerialPrint ''.''] @
          [println (CHR 0x0A # ''WiFi Connected!''), SerialPrint ''ESP32 IP Address: '',
           println ''192.168.1.23'']))
   \<and> (\<exists>m'. connectToWiFi (link_up_after 3) ''192.168.1.23'' boot = Some m')
   \<and> connectToWiFi link_never_up ''192.168.1.23'' boot = None"
proof -
  have a: "link_up_after 3 3 = WL_CONNECTED" by (simp add: link_up_after_def)
  have b: "\<forall>j<3. link_up_after 3 j \<noteq> WL_CONNECTED" by (simp add: link_up_after_def)
  have c: "\<forall>k. link_never_up k \<noteq> WL_CONNECTED" by (simp add: link_never_up_def)
  have d: "dots 3 = [Delay 1000, SerialPrint ''.'', Delay 1000, SerialPrint ''.'', Delay 1000,
           SerialPrint ''.'']"
    by (simp add: dots_def numeral_3_eq_3)
  show ?thesis
    using a b c d
      connect_returns_iff_link_comes_up [of "link_up_after 3" "''192.168.1.23''" boot 3]
      connect_returns_iff_link_comes_up [of link_never_up "''192.168.1.23''" boot 0]
    by simp
qed

lemma dev_connectToWiFi:
  assumes "connectToWiFi link ip m = Some m'"
  shows "dev m' = dev m"
proof -
  have "\<exists>k. link k = WL_CONNECTED"
  proof (rule ccontr)
    assume "\<not> (\<exists>k. link k = WL_CONNECTED)"
    then have "connectToWiFi link ip m = None" using connectToWiFi_never by blast
    with assms show False by simp
  qed
  then obtain n0 where "link n0 = WL_CONNECTED" and "\<forall>j<n0. link j \<noteq> WL_CONNECTED"
    using first_connected by blast
  then have "connectToWiFi link ip m =
     Some (emit m
       ([SerialPrint ''Connecting to WiFi: '', println ssid, WiFiBegin ssid] @
        dots n0 @
        [println (CHR 0x0A # ''WiFi Connected!''), SerialPrint ''ESP32 IP Address: '',
         println ip]))"
    by (rule connectToWiFi_found)
  with assms show ?thesis by (auto simp: dev_emit)
qed

lemma dev_sketch_setup:
  assumes "sketch_setup link ip m = Some m'"
  shows "dev m' = dev m"
proof -
  from assms obtain m1 where c: "connectToWiFi link ip (emit m [SerialBegin 115200]) = Some m1"
    and e: "m' = emit m1 [Delay 2000]"
    by (auto simp: sketch_setup_def split: option.splits)
  from c have "dev m1 = dev (emit m [SerialBegin 115200])" by (rule dev_connectToWiFi)
  with e show ?thesis by (simp add: dev_emit)
qed

lemma sketch_setup_found:
  assumes "link n = WL_CONNECTED" and "\<forall>j<n. link j \<noteq> WL_CONNECTED"
  shows "\<exists>m'. sketch_setup link ip m = Some m'"
  using connectToWiFi_found [OF assms, of ip "emit m [SerialBegin 115200]"]
  by (simp add: sketch_setup_def)

section \<open>The identity of the clamp\<close>

text \<open>
  Claim C8: the fields \<^verbatim>\<open>clampId\<close> and \<^verbatim>\<open>clampCity\<close> never change. The tick, the send
  operation, one iteration of the loop and any number of iterations leave them as they
  were, and so does the set-up when it returns; in every state of the program after
  set-up, whatever the network answers, they hold the values assigned at start.
\<close>

theorem identity_never_changes:
  "clampId (tick d) = clampId d \<and> clampCity (tick d) = clampCity d
   \<and> clampId (dev (sendStatusUpdate env m)) = clampId (dev m)
   \<and> clampCity (dev (sendStatusUpdate env m)) = clampCity (dev m)
   \<and> clampId (dev (loop env m)) = clampId (dev m)
   \<and> clampCity (dev (loop env m)) = clampCity (dev m)
   \<and> clampId (dev (run envs m)) = clampId (dev m)
   \<and> clampCity (dev (run envs m)) = clampCity (dev m)
   \<and> (sketch_setup link ip m = Some m' \<longrightarrow>
        clampId (dev m') = clampId (dev m) \<and> clampCity (dev m') = clampCity (dev m))
   \<and> (sketch_setup link ip boot = Some m' \<longrightarrow>
        clampId (dev (run envs m')) = ''PHYSICAL_CLAMP_001''
        \<and> clampCity (dev (run envs m')) = ''Pune'')"
proof -
  have a: "sketch_setup link ip m = Some m' \<longrightarrow>
        clampId (dev m') = clampId (dev m) \<and> clampCity (dev m') = clampCity (dev m)"
    using dev_sketch_setup [of link ip m m'] by simp
  have b: "sketch_setup link ip boot = Some m' \<longrightarrow>
        clampId (dev (run envs m')) = ''PHYSICAL_CLAMP_001''
        \<and> clampCity (dev (run envs m')) = ''Pune''"
    using dev_sketch_setup [of link ip boot m']
    by (simp add: dev_run ticks_clampId ticks_clampCity dev_boot) (simp add: initial_status_def)
  show ?thesis
    using a b
    by (simp add: dev_sendStatusUpdate dev_loop dev_run tick_clampId tick_clampCity
        ticks_clampId ticks_clampCity)
qed

theorem identity_never_changes_witness:
  "\<exists>m'. sketch_setup (link_up_after 1) ''192.168.1.23'' boot = Some m'
     \<and> clampId (dev m') = clampId (dev boot) \<and> clampCity (dev m') = clampCity (dev boot)
     \<and> clampId (dev (run [env_ok, env_offline, env_500] m')) = ''PHYSICAL_CLAMP_001''
     \<and> clampCity (dev (run [env_ok, env_offline, env_500] m')) = ''Pune''"
proof -
  have "link_up_after 1 1 = WL_CONNECTED" and "\<forall>j<1. link_up_after 1 j \<noteq> WL_CONNECTED"
    by (simp_all add: link_up_after_def)
  then obtain m' where s: "sketch_setup (link_up_after 1) ''192.168.1.23'' boot = Some m'"
    using sketch_setup_found by blast
  show ?thesis
    using s
      identity_never_changes
        [where m = boot and envs = "[env_ok, env_offline, env_500]"
           and link = "link_up_after 1" and ip = "''192.168.1.23''" and m' = m']
    by blast
qed

end
